theory Spec2Isabelle
  imports Complex_Main
begin

section \<open>The Stiefel manifold of pymanopt: data model\<close>

text \<open>
  The module \<^verbatim>\<open>pymanopt/manifolds/stiefel.py\<close> defines one class, \<^verbatim>\<open>Stiefel\<close>.
  Python integers are unbounded, so the constructor's arguments are \<^typ>\<open>int\<close>.
  The class computes with numpy's floating-point arrays; here their entries are real
  numbers, so every statement below is about the exact arithmetic that the floating-point
  code approximates.
\<close>

datatype error =
    ValueError string
  | NotImplementedError
  | NameError string
  | IndexError
  | AttributeError string

text \<open>
  The module's docstring: elements are n x p matrices if k = 1 and k x n x p arrays if
  k > 1. A matrix is the list of its rows; a stack is the list of its slices. One-axis
  arrays occur as the diagonal that \<^verbatim>\<open>np.diag\<close> extracts.
\<close>

type_synonym matrix = "real list list"

datatype ndarray = Vec "real list" | Mat matrix | Stack "matrix list"

text \<open>
  The instance attributes \<^verbatim>\<open>_n\<close>, \<^verbatim>\<open>_p\<close>, \<^verbatim>\<open>_k\<close>, \<^verbatim>\<open>_dim\<close>, \<^verbatim>\<open>_name\<close>. The
  attribute \<^verbatim>\<open>_name\<close> is assigned in an \<^verbatim>\<open>if\<close>/\<^verbatim>\<open>elif\<close> chain with no \<^verbatim>\<open>else\<close>,
  so it is optional in the record.
\<close>

record Stiefel =
  self_n :: int
  self_p :: int
  self_k :: int
  self_dim :: real
  self_name :: "string option"

subsection \<open>Formatting with \<^verbatim>\<open>%d\<close>\<close>

fun digits :: "nat \<Rightarrow> string" where
  "digits m =
     (if m < 10 then [''0123456789'' ! m]
      else digits (m div 10) @ [''0123456789'' ! (m mod 10)])"

declare digits.simps [simp del]

definition fmt_d :: "int \<Rightarrow> string" where
  "fmt_d i = (if i < 0 then CHR ''-'' # digits (nat (- i)) else digits (nat i))"

subsection \<open>Construction\<close>

definition init :: "int \<Rightarrow> int \<Rightarrow> int \<Rightarrow> error + Stiefel" where
  "init height width k =
     (if height < width \<or> width < 1 then
        Inl (ValueError (''Need n >= p >= 1. Values supplied were n = '' @ fmt_d height
                         @ '' and p = '' @ fmt_d width @ ''.''))
      else if k < 1 then
        Inl (ValueError (''Need k >= 1. Value supplied was k = '' @ fmt_d k @ ''.''))
      else
        Inr \<lparr> self_n = height, self_p = width, self_k = k,
              self_dim = of_int k * (of_int (height * width)
                                     - 0.5 * of_int width * of_int (width + 1)),
              self_name =
                (if k = 1 then
                   Some (''Stiefel manifold St('' @ fmt_d height @ '', '' @ fmt_d width @ '')'')
                 else if k \<ge> 2 then
                   Some (''Product Stiefel manifold St('' @ fmt_d height @ '', ''
                         @ fmt_d width @ '')^'' @ fmt_d k)
                 else None) \<rparr>)"

text \<open>The default argument \<^verbatim>\<open>k = 1\<close>.\<close>

definition init_default :: "int \<Rightarrow> int \<Rightarrow> error + Stiefel" where
  "init_default height width = init height width 1"



definition typicaldist :: "Stiefel \<Rightarrow> real" where
  "typicaldist self = sqrt (of_int (self_p self * self_k self))"

subsection \<open>Operators that are not implemented\<close>

definition dist_stiefel :: "Stiefel \<Rightarrow> ndarray \<Rightarrow> ndarray \<Rightarrow> error + real" where
  "dist_stiefel self X Y = Inl NotImplementedError"

definition log_stiefel :: "Stiefel \<Rightarrow> ndarray \<Rightarrow> ndarray \<Rightarrow> error + ndarray" where
  "log_stiefel self X Y = Inl NotImplementedError"

section \<open>The numpy layer\<close>

text \<open>
  The array operations of numpy that the class calls, on the shapes the class documents:
  rectangular arrays whose axes all have positive length (the constructor guarantees
  n \<ge> p \<ge> 1 and k \<ge> 1). On other shapes numpy raises or broadcasts; that behaviour
  belongs to the library, it is not modelled, and every statement below that depends on a
  shape carries the shape as a hypothesis.
\<close>

definition mk :: "nat \<Rightarrow> nat \<Rightarrow> (nat \<Rightarrow> nat \<Rightarrow> real) \<Rightarrow> matrix" where
  "mk r c f = map (\<lambda>i. map (f i) [0..<c]) [0..<r]"

definition nrows :: "matrix \<Rightarrow> nat" where
  "nrows A = length A"

definition ncols :: "matrix \<Rightarrow> nat" where
  "ncols A = (case A of [] \<Rightarrow> 0 | row # _ \<Rightarrow> length row)"

definition is_mat :: "nat \<Rightarrow> nat \<Rightarrow> matrix \<Rightarrow> bool" where
  "is_mat r c A \<longleftrightarrow> length A = r \<and> list_all (\<lambda>row. length row = c) A"

definition is_stack :: "nat \<Rightarrow> nat \<Rightarrow> nat \<Rightarrow> matrix list \<Rightarrow> bool" where
  "is_stack k r c As \<longleftrightarrow> length As = k \<and> list_all (is_mat r c) As"

text \<open>\<^verbatim>\<open>A.T\<close>, \<^verbatim>\<open>np.dot(A, B)\<close> and the elementwise operators, on matrices.\<close>

definition mat_T :: "matrix \<Rightarrow> matrix" where
  "mat_T A = mk (ncols A) (nrows A) (\<lambda>i j. A ! j ! i)"

definition mat_dot :: "matrix \<Rightarrow> matrix \<Rightarrow> matrix" where
  "mat_dot A B = mk (nrows A) (ncols B) (\<lambda>i j. \<Sum>l<ncols A. A ! i ! l * B ! l ! j)"

definition mat_add :: "matrix \<Rightarrow> matrix \<Rightarrow> matrix" where
  "mat_add A B = map2 (map2 (+)) A B"

definition mat_sub :: "matrix \<Rightarrow> matrix \<Rightarrow> matrix" where
  "mat_sub A B = map2 (map2 (-)) A B"

definition mat_neg :: "matrix \<Rightarrow> matrix" where
  "mat_neg A = map (map uminus) A"

definition mat_div :: "matrix \<Rightarrow> real \<Rightarrow> matrix" where
  "mat_div A c = map (map (\<lambda>x. x / c)) A"

definition eye :: "nat \<Rightarrow> matrix" where
  "eye p = mk p p (\<lambda>i j. if i = j then 1 else 0)"

definition zeros :: "nat \<Rightarrow> nat \<Rightarrow> matrix" where
  "zeros r c = mk r c (\<lambda>i j. 0)"

text \<open>Blocks side by side (concatenation along the last axis) and on top of each other.\<close>

fun mat_hcat :: "matrix list \<Rightarrow> matrix" where
  "mat_hcat [] = []"
| "mat_hcat [A] = A"
| "mat_hcat (A # Bs) = map2 (@) A (mat_hcat Bs)"

definition mat_vcat :: "matrix list \<Rightarrow> matrix" where
  "mat_vcat As = concat As"

text \<open>The same operations on arrays, by number of axes.\<close>

fun ndim :: "ndarray \<Rightarrow> nat" where
  "ndim (Vec v) = 1"
| "ndim (Mat A) = 2"
| "ndim (Stack As) = 3"

fun np_shape :: "ndarray \<Rightarrow> nat list" where
  "np_shape (Vec v) = [length v]"
| "np_shape (Mat A) = [nrows A, ncols A]"
| "np_shape (Stack As) = (case As of [] \<Rightarrow> [0, 0, 0] | A # _ \<Rightarrow> [length As, nrows A, ncols A])"

fun np_zeros :: "nat list \<Rightarrow> ndarray" where
  "np_zeros [n] = Vec (replicate n 0)"
| "np_zeros [r, c] = Mat (zeros r c)"
| "np_zeros [k, r, c] = Stack (replicate k (zeros r c))"

definition np_eye :: "nat \<Rightarrow> ndarray" where
  "np_eye p = Mat (eye p)"

fun ravel :: "ndarray \<Rightarrow> real list" where
  "ravel (Vec v) = v"
| "ravel (Mat A) = concat A"
| "ravel (Stack As) = concat (map concat As)"

fun np_T :: "ndarray \<Rightarrow> ndarray" where
  "np_T (Vec v) = Vec v"
| "np_T (Mat A) = Mat (mat_T A)"

fun np_dot :: "ndarray \<Rightarrow> ndarray \<Rightarrow> ndarray" where
  "np_dot (Mat A) (Mat B) = Mat (mat_dot A B)"

fun np_add :: "ndarray \<Rightarrow> ndarray \<Rightarrow> ndarray" where
  "np_add (Vec a) (Vec b) = Vec (map2 (+) a b)"
| "np_add (Mat A) (Mat B) = Mat (mat_add A B)"
| "np_add (Stack As) (Stack Bs) = Stack (map2 mat_add As Bs)"

fun np_sub :: "ndarray \<Rightarrow> ndarray \<Rightarrow> ndarray" where
  "np_sub (Vec a) (Vec b) = Vec (map2 (-) a b)"
| "np_sub (Mat A) (Mat B) = Mat (mat_sub A B)"
| "np_sub (Stack As) (Stack Bs) = Stack (map2 mat_sub As Bs)"

fun np_neg :: "ndarray \<Rightarrow> ndarray" where
  "np_neg (Vec v) = Vec (map uminus v)"
| "np_neg (Mat A) = Mat (mat_neg A)"
| "np_neg (Stack As) = Stack (map mat_neg As)"

text \<open>Division of an array by a scalar that is not zero, as in \<^verbatim>\<open>... / 2\<close>.\<close>

fun np_div :: "ndarray \<Rightarrow> real \<Rightarrow> ndarray" where
  "np_div (Vec v) c = Vec (map (\<lambda>x. x / c) v)"
| "np_div (Mat A) c = Mat (mat_div A c)"
| "np_div (Stack As) c = Stack (map (\<lambda>A. mat_div A c) As)"


fun np_add_scalar :: "ndarray \<Rightarrow> real \<Rightarrow> ndarray" where
  "np_add_scalar (Vec v) c = Vec (map (\<lambda>x. x + c) v)"
| "np_add_scalar (Mat A) c = Mat (map (map (\<lambda>x. x + c)) A)"
| "np_add_scalar (Stack As) c = Stack (map (map (map (\<lambda>x. x + c))) As)"

fun np_sign :: "ndarray \<Rightarrow> ndarray" where
  "np_sign (Vec v) = Vec (map sgn v)"
| "np_sign (Mat A) = Mat (map (map sgn) A)"
| "np_sign (Stack As) = Stack (map (map (map sgn)) As)"

text \<open>
  \<^verbatim>\<open>np.diag\<close> extracts the diagonal of a matrix and builds a diagonal matrix from a
  one-axis array.
\<close>

fun np_diag :: "ndarray \<Rightarrow> ndarray" where
  "np_diag (Mat A) = Vec (map (\<lambda>i. A ! i ! i) [0..<min (nrows A) (ncols A)])"
| "np_diag (Vec v) = Mat (mk (length v) (length v) (\<lambda>i j. if i = j then v ! i else 0))"

fun the_mat :: "ndarray \<Rightarrow> matrix" where
  "the_mat (Mat A) = A"

text \<open>
  \<^verbatim>\<open>np.bmat\<close> of a list of arrays puts them side by side; of a list of lists of arrays it
  puts the rows of blocks on top of each other.
\<close>

definition np_bmat_row :: "ndarray list \<Rightarrow> ndarray" where
  "np_bmat_row blocks = Mat (mat_hcat (map the_mat blocks))"

definition np_bmat :: "ndarray list list \<Rightarrow> ndarray" where
  "np_bmat rows = Mat (mat_vcat (map (\<lambda>row. mat_hcat (map the_mat row)) rows))"

text \<open>\<^verbatim>\<open>np.linalg.norm(G)\<close> with no further argument: the 2-norm of the ravelled array.\<close>

definition np_linalg_norm :: "ndarray \<Rightarrow> real" where
  "np_linalg_norm G = sqrt (\<Sum>x\<leftarrow>ravel G. x * x)"

text \<open>
  \<^verbatim>\<open>np.tensordot(G, H, axes)\<close> where \<^verbatim>\<open>axes\<close> is the number of axes of both arrays: the
  sum over all positions of the products of the entries.
\<close>

definition np_tensordot :: "ndarray \<Rightarrow> ndarray \<Rightarrow> nat \<Rightarrow> real" where
  "np_tensordot G H axes = (\<Sum>(x, y)\<leftarrow>zip (ravel G) (ravel H). x * y)"

text \<open>Indexing a stack: \<^verbatim>\<open>X[i]\<close> and \<^verbatim>\<open>X[i] = A\<close>, for an index that is not negative.\<close>

fun getitem :: "ndarray \<Rightarrow> nat \<Rightarrow> error + ndarray" where
  "getitem (Stack As) i = (if i < length As then Inr (Mat (As ! i)) else Inl IndexError)"

fun setitem :: "ndarray \<Rightarrow> nat \<Rightarrow> ndarray \<Rightarrow> error + ndarray" where
  "setitem (Stack As) i (Mat A) =
     (if i < length As then Inr (Stack (As[i := A])) else Inl IndexError)"

text \<open>
  The kernels \<^verbatim>\<open>np.linalg.qr\<close> and \<^verbatim>\<open>scipy.linalg.expm\<close> are parameters of the
  operators that call them.
\<close>

fun np_linalg_qr :: "(matrix \<Rightarrow> matrix \<times> matrix) \<Rightarrow> ndarray \<Rightarrow> ndarray \<times> ndarray" where
  "np_linalg_qr qr (Mat A) = (case qr A of (q, r) \<Rightarrow> (Mat q, Mat r))"

fun scipy_expm :: "(matrix \<Rightarrow> matrix) \<Rightarrow> ndarray \<Rightarrow> ndarray" where
  "scipy_expm expm (Mat A) = Mat (expm A)"

section \<open>The helpers of \<^verbatim>\<open>pymanopt.tools.multi\<close>\<close>

text \<open>
  Modelled from the spec: the module \<^verbatim>\<open>pymanopt/tools/multi.py\<close>, from which the class
  imports \<^verbatim>\<open>multiprod\<close>, \<^verbatim>\<open>multitransp\<close> and \<^verbatim>\<open>multisym\<close>, is not among the sources.
  The spec describes them as the batched-matrix helper layer: product-multiply,
  product-transpose and symmetric part, each applied per slice, with
  sym(M) = (M + transpose of M) / 2. On a single matrix they are the matrix operation itself.
\<close>

fun multiprod :: "ndarray \<Rightarrow> ndarray \<Rightarrow> ndarray" where
  "multiprod (Mat A) (Mat B) = Mat (mat_dot A B)"
| "multiprod (Stack As) (Stack Bs) = Stack (map2 mat_dot As Bs)"

fun multitransp :: "ndarray \<Rightarrow> ndarray" where
  "multitransp (Mat A) = Mat (mat_T A)"
| "multitransp (Stack As) = Stack (map mat_T As)"

definition multisym :: "ndarray \<Rightarrow> ndarray" where
  "multisym A = np_div (np_add A (multitransp A)) 2"

section \<open>The operators of the class\<close>

definition inner :: "Stiefel \<Rightarrow> ndarray \<Rightarrow> ndarray \<Rightarrow> ndarray \<Rightarrow> real" where
  "inner self X G H = np_tensordot G H (ndim G)"

definition proj :: "Stiefel \<Rightarrow> ndarray \<Rightarrow> ndarray \<Rightarrow> ndarray" where
  "proj self X U =
     (if self_k self = 1 then
        np_sub U (np_div (np_dot X (np_add (np_dot (np_T X) U) (np_dot (np_T U) X))) 2)
      else
        np_sub U (np_div (multiprod X (np_add (multiprod (multitransp X) U)
                                              (multiprod (multitransp U) X))) 2))"

definition egrad2rgrad :: "Stiefel \<Rightarrow> ndarray \<Rightarrow> ndarray \<Rightarrow> ndarray" where
  "egrad2rgrad = proj"

definition ehess2rhess ::
  "Stiefel \<Rightarrow> ndarray \<Rightarrow> ndarray \<Rightarrow> ndarray \<Rightarrow> ndarray \<Rightarrow> ndarray" where
  "ehess2rhess self X egrad ehess H =
     (let XtG = multiprod (multitransp X) egrad;
          symXtG = multisym XtG;
          HsymXtG = multiprod H symXtG
      in proj self X (np_sub ehess HsymXtG))"

text \<open>
  \<^verbatim>\<open>retr\<close>. In the branch for k other than 1 the body of the loop reads the name \<^verbatim>\<open>Y\<close>,
  which is bound nowhere: it is not a parameter or a local variable of the method, not a
  global of the module and not a builtin. Reading it raises \<^verbatim>\<open>NameError\<close>. The loop
  runs over \<^verbatim>\<open>xrange(self._k)\<close>, the indices from 0 up to k - 1.
\<close>

definition unbound_name :: "string \<Rightarrow> error + ndarray" where
  "unbound_name nm = Inl (NameError nm)"

fun retr_loop ::
  "(matrix \<Rightarrow> matrix \<times> matrix) \<Rightarrow> nat list \<Rightarrow> ndarray \<Rightarrow> error + ndarray" where
  "retr_loop qr [] XNew = Inr XNew"
| "retr_loop qr (i # is) XNew =
     (case unbound_name ''Y'' of Inl e \<Rightarrow> Inl e
      | Inr Y \<Rightarrow>
         (case getitem Y i of Inl e \<Rightarrow> Inl e
          | Inr Yi \<Rightarrow>
             (case np_linalg_qr qr Yi of (q, r) \<Rightarrow>
                (case setitem XNew i
                        (np_dot q (np_diag (np_sign (np_add_scalar (np_sign (np_diag r)) 0.5))))
                 of Inl e \<Rightarrow> Inl e
                  | Inr XNew' \<Rightarrow> retr_loop qr is XNew'))))"

definition retr ::
  "(matrix \<Rightarrow> matrix \<times> matrix) \<Rightarrow> Stiefel \<Rightarrow> ndarray \<Rightarrow> ndarray \<Rightarrow> error + ndarray" where
  "retr qr self X G =
     (if self_k self = 1 then
        (case np_linalg_qr qr (np_add X G) of (q, r) \<Rightarrow>
           Inr (np_dot q (np_diag (np_sign (np_add_scalar (np_sign (np_diag r)) 0.5)))))
      else
        retr_loop qr [0..<nat (self_k self)] (np_add X G))"

definition norm_stiefel :: "Stiefel \<Rightarrow> ndarray \<Rightarrow> ndarray \<Rightarrow> real" where
  "norm_stiefel self X G = np_linalg_norm G"


definition transp_stiefel :: "Stiefel \<Rightarrow> ndarray \<Rightarrow> ndarray \<Rightarrow> ndarray \<Rightarrow> ndarray" where
  "transp_stiefel self x1 x2 d = proj self x2 d"

text \<open>\<^verbatim>\<open>exp\<close>: the expression is written out in each branch, as in the source.\<close>

fun exp_loop ::
  "(matrix \<Rightarrow> matrix) \<Rightarrow> Stiefel \<Rightarrow> ndarray \<Rightarrow> ndarray \<Rightarrow> nat list \<Rightarrow> ndarray
     \<Rightarrow> error + ndarray" where
  "exp_loop expm self X U [] Y = Inr Y"
| "exp_loop expm self X U (i # is) Y =
     (case getitem X i of Inl e \<Rightarrow> Inl e
      | Inr Xi \<Rightarrow>
         (case getitem U i of Inl e \<Rightarrow> Inl e
          | Inr Ui \<Rightarrow>
             (case setitem Y i
                (np_dot
                   (np_dot (np_bmat_row [Xi, Ui])
                      (scipy_expm expm
                         (np_bmat [[np_dot (np_T Xi) Ui, np_neg (np_dot (np_T Ui) Ui)],
                                   [np_eye (nat (self_p self)), np_dot (np_T Xi) Ui]])))
                   (np_bmat [[scipy_expm expm (np_neg (np_dot (np_T Xi) Ui))],
                             [np_zeros [nat (self_p self), nat (self_p self)]]]))
              of Inl e \<Rightarrow> Inl e
               | Inr Y' \<Rightarrow> exp_loop expm self X U is Y')))"

definition exp_stiefel ::
  "(matrix \<Rightarrow> matrix) \<Rightarrow> Stiefel \<Rightarrow> ndarray \<Rightarrow> ndarray \<Rightarrow> error + ndarray" where
  "exp_stiefel expm self X U =
     (if self_k self = 1 then
        Inr (np_dot
               (np_dot (np_bmat_row [X, U])
                  (scipy_expm expm
                     (np_bmat [[np_dot (np_T X) U, np_neg (np_dot (np_T U) U)],
                               [np_eye (nat (self_p self)), np_dot (np_T X) U]])))
               (np_bmat [[scipy_expm expm (np_neg (np_dot (np_T X) U))],
                         [np_zeros [nat (self_p self), nat (self_p self)]]]))
      else
        exp_loop expm self X U [0..<nat (self_k self)] (np_zeros (np_shape X)))"

section \<open>The formulas of the specification\<close>

text \<open>
  The closed forms that the specification states, on one slice, written from its words;
  the theorems below compare the operators of the class with them.
\<close>

text \<open>sym(M) = (M + transpose of M) / 2.\<close>

definition sym :: "matrix \<Rightarrow> matrix" where
  "sym M = mat_div (mat_add M (mat_T M)) 2"

text \<open>The projection U - X sym(transpose of X times U).\<close>

definition proj_formula :: "matrix \<Rightarrow> matrix \<Rightarrow> matrix" where
  "proj_formula X U = mat_sub U (mat_dot X (sym (mat_dot (mat_T X) U)))"

text \<open>
  The exponential map: with A the product of the transpose of X and U, the point
  [X | U] expm([[A, - (transpose of U) U], [I, A]]) [expm(- A); 0].
\<close>

definition exp_formula :: "(matrix \<Rightarrow> matrix) \<Rightarrow> nat \<Rightarrow> matrix \<Rightarrow> matrix \<Rightarrow> matrix" where
  "exp_formula expm p X U =
     (let A = mat_dot (mat_T X) U;
          B = mat_vcat [mat_hcat [A, mat_neg (mat_dot (mat_T U) U)], mat_hcat [eye p, A]]
      in mat_dot (mat_dot (mat_hcat [X, U]) (expm B)) (mat_vcat [expm (mat_neg A), zeros p p]))"

text \<open>The Frobenius inner product and norm of matrices, as sums over rows and columns.\<close>

definition frobenius_inner :: "matrix \<Rightarrow> matrix \<Rightarrow> real" where
  "frobenius_inner A B = (\<Sum>(ra, rb)\<leftarrow>zip A B. \<Sum>(x, y)\<leftarrow>zip ra rb. x * y)"

definition frobenius_norm :: "matrix \<Rightarrow> real" where
  "frobenius_norm A = sqrt (\<Sum>row\<leftarrow>A. \<Sum>x\<leftarrow>row. x\<^sup>2)"


section \<open>Construction: validation, dimension and name\<close>

lemma init_Inl_iff:
  "(\<exists>e. init height width k = Inl e) \<longleftrightarrow> (height < width \<or> width < 1 \<or> k < 1)"
  by (auto simp: init_def)

lemma init_Inl_ValueError:
  "init height width k = Inl e \<Longrightarrow> \<exists>msg. e = ValueError msg"
  by (auto simp: init_def split: if_splits)






section \<open>Distance and logarithm\<close>

text \<open>
  Claim C7. For every pair of arguments, \<^verbatim>\<open>dist\<close> raises \<^verbatim>\<open>NotImplementedError\<close> and
  so does \<^verbatim>\<open>log\<close>; neither returns a value, and the error differs from every
  \<^verbatim>\<open>ValueError\<close>, the error of an invalid dimension.
\<close>

theorem dist_log_not_implemented:
  "dist_stiefel self X Y = Inl NotImplementedError
   \<and> log_stiefel self X Y = Inl NotImplementedError
   \<and> (\<forall>r. dist_stiefel self X Y \<noteq> Inr r)
   \<and> (\<forall>Z. log_stiefel self X Y \<noteq> Inr Z)
   \<and> (\<forall>msg. NotImplementedError \<noteq> ValueError msg)"
  by (simp add: dist_stiefel_def log_stiefel_def)

section \<open>Matrices given by their entries\<close>

lemma mk_cong2:
  "r = r' \<Longrightarrow> c = c' \<Longrightarrow> (\<And>i j. i < r' \<Longrightarrow> j < c' \<Longrightarrow> f i j = g i j)
   \<Longrightarrow> mk r c f = mk r' c' g"
  by (auto simp: mk_def)

lemma length_mk [simp]: "length (mk r c f) = r"
  by (simp add: mk_def)

lemma nth_mk [simp]: "i < r \<Longrightarrow> j < c \<Longrightarrow> mk r c f ! i ! j = f i j"
  by (simp add: mk_def)

lemma is_mat_mk [simp]: "is_mat r c (mk r c f)"
  by (simp add: is_mat_def mk_def list_all_iff)

lemma nrows_mk [simp]: "nrows (mk r c f) = r"
  by (simp add: nrows_def)

lemma ncols_mk [simp]: "0 < r \<Longrightarrow> ncols (mk r c f) = c"
proof -
  assume "0 < r"
  then have "[0..<r] = 0 # [Suc 0..<r]" by (simp add: upt_conv_Cons)
  then show ?thesis by (simp add: ncols_def mk_def)
qed

lemma is_mat_row: "is_mat r c A \<Longrightarrow> i < r \<Longrightarrow> length (A ! i) = c"
  by (simp add: is_mat_def list_all_length)

lemma is_mat_mk_conv:
  assumes "is_mat r c A"
  shows "A = mk r c (\<lambda>i j. A ! i ! j)"
proof (rule nth_equalityI)
  show "length A = length (mk r c (\<lambda>i j. A ! i ! j))"
    using assms by (simp add: is_mat_def)
next
  fix i assume "i < length A"
  then have i: "i < r" using assms by (simp add: is_mat_def)
  then have "length (A ! i) = c" using assms by (rule is_mat_row [rotated])
  then show "A ! i = mk r c (\<lambda>i j. A ! i ! j) ! i"
    using i by (intro nth_equalityI) (simp_all add: mk_def)
qed

lemma is_mat_obtain:
  assumes "is_mat r c A"
  obtains f where "A = mk r c f"
  using is_mat_mk_conv [OF assms] by blast

lemma mat_T_mk: "0 < r \<Longrightarrow> mat_T (mk r c f) = mk c r (\<lambda>i j. f j i)"
  by (simp add: mat_T_def cong: mk_cong2)

lemma mat_dot_mk:
  "0 < r \<Longrightarrow> 0 < m \<Longrightarrow>
   mat_dot (mk r m f) (mk m c g) = mk r c (\<lambda>i j. \<Sum>l<m. f i l * g l j)"
  by (simp add: mat_dot_def cong: mk_cong2)

lemma map2_mk: "map2 (map2 h) (mk r c f) (mk r c g) = mk r c (\<lambda>i j. h (f i j) (g i j))"
  by (simp add: mk_def map2_map_map)

lemma mat_add_mk: "mat_add (mk r c f) (mk r c g) = mk r c (\<lambda>i j. f i j + g i j)"
  by (simp add: mat_add_def map2_mk)

lemma mat_sub_mk: "mat_sub (mk r c f) (mk r c g) = mk r c (\<lambda>i j. f i j - g i j)"
  by (simp add: mat_sub_def map2_mk)

lemma mat_div_mk: "mat_div (mk r c f) x = mk r c (\<lambda>i j. f i j / x)"
  by (simp add: mat_div_def mk_def)

lemma mat_neg_mk: "mat_neg (mk r c f) = mk r c (\<lambda>i j. - f i j)"
  by (simp add: mat_neg_def mk_def)


lemmas mk_ops = mat_T_mk mat_dot_mk mat_add_mk mat_sub_mk mat_div_mk mat_neg_mk

text \<open>The definitions that evaluate the operators on explicit arrays.\<close>

lemmas eval_ops = proj_def proj_formula_def sym_def mat_dot_def mat_T_def mat_add_def
  mat_sub_def mat_div_def mk_def nrows_def ncols_def eye_def lessThan_Suc

section \<open>Retraction\<close>

lemma sgn_sgn_half: "sgn (sgn (x::real) + 1 / 2) = (if x < 0 then - 1 else 1)"
  by (simp add: sgn_if)

text \<open>
  For k = 1 the retraction is Q diag(s) with s(i) = - 1 when r(i, i) is negative and 1
  otherwise, so a zero on the diagonal of R gives the factor 1.
\<close>

lemma retr_single:
  assumes "self_k self = 1" and "qr (mat_add X G) = (q, r)"
  shows "retr qr self (Mat X) (Mat G) =
           Inr (Mat (mat_dot q (mk (min (nrows r) (ncols r)) (min (nrows r) (ncols r))
                  (\<lambda>i j. if i = j then (if r ! i ! i < 0 then - 1 else 1) else 0))))"
  using assms
  apply (simp add: retr_def)
  apply (rule arg_cong [where f = "mat_dot q"])
  apply (rule mk_cong2 [OF refl refl])
  apply (simp add: sgn_sgn_half)
  done

text \<open>For every other positive k the first pass through the loop raises.\<close>

lemma retr_stack_NameError:
  assumes "self_k self \<noteq> 1" and "0 < self_k self"
  shows "retr qr self X G = Inl (NameError ''Y'')"
proof -
  have "[0..<nat (self_k self)] = 0 # [1..<nat (self_k self)]"
    using assms by (simp add: upt_conv_Cons)
  then show ?thesis
    using assms by (simp add: retr_def unbound_name_def)
qed

text \<open>
  Claim C1, at an input where the code departs from it. On the manifold constructed with
  n = 2, p = 1, k = 2, with two slices in X and in G, \<^verbatim>\<open>retr\<close> returns no point: it
  raises \<^verbatim>\<open>NameError\<close> for the name \<^verbatim>\<open>Y\<close>, whatever the QR kernel is.
\<close>

theorem retr_stack_raises:
  "\<exists>M. init 2 1 2 = Inr M
      \<and> retr qr M (Stack [[[1], [0]], [[0], [1]]]) (Stack [[[0], [0]], [[0], [0]]])
          = Inl (NameError ''Y'')"
  by (simp add: init_def retr_def upt_conv_Cons unbound_name_def)

section \<open>Exponential map\<close>

lemma exp_single:
  "self_k self = 1 \<Longrightarrow>
   exp_stiefel expm self (Mat X) (Mat U) = Inr (Mat (exp_formula expm (nat (self_p self)) X U))"
  by (simp add: exp_stiefel_def exp_formula_def np_bmat_row_def np_bmat_def np_eye_def Let_def)

lemma exp_loop_fold:
  assumes "\<forall>i\<in>set js. i < length Xs \<and> i < length Us \<and> i < length Ys"
  shows "exp_loop expm self (Stack Xs) (Stack Us) js (Stack Ys) =
           Inr (Stack (fold (\<lambda>i Y. Y[i := exp_formula expm (nat (self_p self)) (Xs ! i) (Us ! i)])
                         js Ys))"
  using assms
proof (induction js arbitrary: Ys)
  case Nil
  then show ?case by simp
next
  case (Cons j js)
  then show ?case
    by (simp add: exp_formula_def np_bmat_row_def np_bmat_def np_eye_def Let_def)
qed

lemma fold_update_nth:
  "m \<le> length Ys \<Longrightarrow>
   length (fold (\<lambda>i Y. Y[i := f i]) [0..<m] Ys) = length Ys
   \<and> (\<forall>j<length Ys. fold (\<lambda>i Y. Y[i := f i]) [0..<m] Ys ! j = (if j < m then f j else Ys ! j))"
proof (induction m)
  case 0
  then show ?case by simp
next
  case (Suc m)
  then show ?case by (auto simp: nth_list_update less_Suc_eq)
qed

lemma fold_update_all:
  assumes "length Ys = m"
  shows "fold (\<lambda>i Y. Y[i := f i]) [0..<m] Ys = map f [0..<m]"
  using fold_update_nth [of m Ys f] assms
  by (intro nth_equalityI) auto

lemma length_np_zeros_shape:
  "\<exists>Ys. np_zeros (np_shape (Stack Xs)) = Stack Ys \<and> length Ys = length Xs"
  by (cases Xs) auto

lemma exp_stack:
  assumes "self_k self \<noteq> 1" and "length Xs = nat (self_k self)" and "length Us = nat (self_k self)"
  shows "exp_stiefel expm self (Stack Xs) (Stack Us) =
           Inr (Stack (map (\<lambda>i. exp_formula expm (nat (self_p self)) (Xs ! i) (Us ! i))
                         [0..<nat (self_k self)]))"
proof -
  obtain Ys where Y: "np_zeros (np_shape (Stack Xs)) = Stack Ys" "length Ys = length Xs"
    using length_np_zeros_shape by blast
  have "exp_loop expm self (Stack Xs) (Stack Us) [0..<nat (self_k self)] (Stack Ys) =
          Inr (Stack (fold (\<lambda>i Y. Y[i := exp_formula expm (nat (self_p self)) (Xs ! i) (Us ! i)])
                         [0..<nat (self_k self)] Ys))"
    by (rule exp_loop_fold) (simp add: assms Y)
  then show ?thesis
    using assms Y by (simp add: exp_stiefel_def fold_update_all)
qed

text \<open>
  Claim C2. \<^verbatim>\<open>exp\<close> computes the closed form of the specification: for k = 1, applied
  once to (X, U); for every other k, when X and U have k slices each, it returns a stack
  of k slices in the order of the input whose slice i is the closed form at
  (X[i], U[i]), which is also what the k = 1 branch returns on that pair.
\<close>

theorem exp_closed_form:
  "(self_k self = 1 \<longrightarrow>
      exp_stiefel expm self (Mat X) (Mat U)
        = Inr (Mat (exp_formula expm (nat (self_p self)) X U)))
   \<and> (self_k self \<noteq> 1 \<and> length Xs = nat (self_k self) \<and> length Us = nat (self_k self) \<longrightarrow>
        (\<exists>Ys. exp_stiefel expm self (Stack Xs) (Stack Us) = Inr (Stack Ys)
           \<and> length Ys = length Xs
           \<and> (\<forall>i<length Xs.
                 Ys ! i = exp_formula expm (nat (self_p self)) (Xs ! i) (Us ! i)
               \<and> exp_stiefel expm (self\<lparr>self_k := 1\<rparr>) (Mat (Xs ! i)) (Mat (Us ! i))
                   = Inr (Mat (Ys ! i)))))"
  using exp_single [of self expm X U] exp_stack [of self Xs Us expm]
    exp_single [of "self\<lparr>self_k := 1\<rparr>" expm]
  by auto

theorem exp_closed_form_witness:
  "self_k \<lparr>self_n = 2, self_p = 1, self_k = 1, self_dim = 1, self_name = None\<rparr> = 1
   \<and> exp_stiefel (\<lambda>M. M) \<lparr>self_n = 2, self_p = 1, self_k = 1, self_dim = 1, self_name = None\<rparr>
         (Mat [[1], [0]]) (Mat [[0], [1]])
       = Inr (Mat (exp_formula (\<lambda>M. M) 1 [[1], [0]] [[0], [1]]))
   \<and> length [[[1], [0]], [[0], [1::real]]] = nat 2
   \<and> (\<exists>Ys. exp_stiefel (\<lambda>M. M)
               \<lparr>self_n = 2, self_p = 1, self_k = 2, self_dim = 2, self_name = None\<rparr>
               (Stack [[[1], [0]], [[0], [1]]]) (Stack [[[0], [1]], [[1], [0]]]) = Inr (Stack Ys)
          \<and> length Ys = 2
          \<and> Ys ! 0 = exp_formula (\<lambda>M. M) 1 [[1], [0]] [[0], [1]]
          \<and> Ys ! 1 = exp_formula (\<lambda>M. M) 1 [[0], [1]] [[1], [0]])"
  using exp_closed_form [of "\<lparr>self_n = 2, self_p = 1, self_k = 1, self_dim = 1, self_name = None\<rparr>"
      "\<lambda>M. M" "[[1], [0]]" "[[0], [1]]" "[]" "[]"]
    exp_closed_form [of "\<lparr>self_n = 2, self_p = 1, self_k = 2, self_dim = 2, self_name = None\<rparr>"
      "\<lambda>M. M" "[]" "[]" "[[[1], [0]], [[0], [1]]]" "[[[0], [1]], [[1], [0]]]"]
  by auto

section \<open>Metric\<close>

lemma sum_list_zip_same: "(\<Sum>(x, y)\<leftarrow>zip xs xs. x * y) = (\<Sum>x\<leftarrow>xs. x * (x::real))"
  by (simp add: zip_same_conv_map comp_def)

lemma sum_list_map_concat:
  "sum_list (map f (concat xss)) = (\<Sum>xs\<leftarrow>xss. sum_list (map f xs) :: real)"
  by (induction xss) auto

lemma sum_squares_nonneg: "0 \<le> (\<Sum>row\<leftarrow>A. \<Sum>x\<leftarrow>row. (x::real)\<^sup>2)"
  by (intro sum_list_nonneg) (auto intro!: sum_list_nonneg)

lemma zip_concat:
  assumes "length As = length Bs" and "\<forall>i<length As. length (As ! i) = length (Bs ! i)"
  shows "zip (concat As) (concat Bs) = concat (map (\<lambda>(a, b). zip a b) (zip As Bs))"
  using assms
proof (induction As Bs rule: list_induct2)
  case Nil
  then show ?case by simp
next
  case (Cons a As b Bs)
  have "length a = length b" using Cons.prems by (auto dest: spec [of _ 0])
  moreover have "\<forall>i<length As. length (As ! i) = length (Bs ! i)"
    using Cons.prems by (auto dest: spec [of _ "Suc i" for i])
  ultimately show ?case using Cons.IH by simp
qed

lemma inner_mat:
  assumes "is_mat r c A" and "is_mat r c B"
  shows "inner self X (Mat A) (Mat B) = frobenius_inner A B"
proof -
  have "zip (concat A) (concat B) = concat (map (\<lambda>(a, b). zip a b) (zip A B))"
    using assms by (intro zip_concat) (auto simp: is_mat_def list_all_length)
  then show ?thesis
    by (simp add: inner_def np_tensordot_def frobenius_inner_def sum_list_map_concat comp_def
        case_prod_unfold)
qed

lemma is_mat_length_concat: "is_mat r c A \<Longrightarrow> length (concat A) = r * c"
  by (induction A arbitrary: r) (auto simp: is_mat_def)

lemma inner_stack:
  assumes "is_stack k r c As" and "is_stack k r c Bs"
  shows "inner self X (Stack As) (Stack Bs) = (\<Sum>(A, B)\<leftarrow>zip As Bs. frobenius_inner A B)"
proof -
  let ?As = "map concat As" and ?Bs = "map concat Bs"
  have l: "length As = length Bs" using assms by (simp add: is_stack_def)
  have m: "\<forall>i<length As. is_mat r c (As ! i) \<and> is_mat r c (Bs ! i)"
    using assms by (auto simp: is_stack_def list_all_length)
  have "zip (concat ?As) (concat ?Bs) = concat (map (\<lambda>(a, b). zip a b) (zip ?As ?Bs))"
    using l m by (intro zip_concat) (auto simp: is_mat_length_concat)
  moreover have "map (\<lambda>(a, b). zip a b) (zip ?As ?Bs)
                  = map (\<lambda>(A, B). zip (concat A) (concat B)) (zip As Bs)"
    by (simp add: zip_map_map case_prod_unfold)
  moreover have "(\<Sum>AB\<leftarrow>zip As Bs. \<Sum>p\<leftarrow>zip (concat (fst AB)) (concat (snd AB)). fst p * snd p)
                = (\<Sum>AB\<leftarrow>zip As Bs. frobenius_inner (fst AB) (snd AB))"
  proof (rule arg_cong [where f = sum_list], rule map_cong [OF refl])
    fix AB assume "AB \<in> set (zip As Bs)"
    then obtain i where "i < length As" "AB = (As ! i, Bs ! i)"
      using l by (auto simp: in_set_zip)
    then have "inner self X (Mat (fst AB)) (Mat (snd AB)) = frobenius_inner (fst AB) (snd AB)"
      using m by (intro inner_mat [of r c]) auto
    then show "(\<Sum>p\<leftarrow>zip (concat (fst AB)) (concat (snd AB)). fst p * snd p)
               = frobenius_inner (fst AB) (snd AB)"
      by (simp add: inner_def np_tensordot_def case_prod_unfold)
  qed
  ultimately show ?thesis
    by (simp add: inner_def np_tensordot_def sum_list_map_concat comp_def case_prod_unfold)
qed

lemma norm_sqrt_inner: "norm_stiefel self X G = sqrt (inner self X G G)"
  by (simp add: norm_stiefel_def np_linalg_norm_def inner_def np_tensordot_def sum_list_zip_same)

lemma norm_mat: "norm_stiefel self X (Mat A) = frobenius_norm A"
  by (simp add: norm_stiefel_def np_linalg_norm_def frobenius_norm_def sum_list_map_concat
      comp_def power2_eq_square)

lemma norm_stack:
  "norm_stiefel self X (Stack As) = sqrt (\<Sum>A\<leftarrow>As. (frobenius_norm A)\<^sup>2)"
proof -
  have "\<And>A. (frobenius_norm A)\<^sup>2 = (\<Sum>row\<leftarrow>A. \<Sum>x\<leftarrow>row. x\<^sup>2)"
    by (simp add: frobenius_norm_def sum_squares_nonneg)
  then show ?thesis
    by (simp add: norm_stiefel_def np_linalg_norm_def sum_list_map_concat comp_def
        power2_eq_square)
qed

text \<open>
  Claim C9. \<^verbatim>\<open>norm(X, G)\<close> is the Frobenius norm of G (of a stack: the root of the sum
  of the squared Frobenius norms of its slices), it is the same at every point X, and it
  is the square root of \<^verbatim>\<open>inner(X, G, G)\<close>; on stacks of one shape \<^verbatim>\<open>inner\<close> is the one
  number that sums the Frobenius inner products of the slices.
\<close>

theorem norm_frobenius:
  "norm_stiefel self X G = norm_stiefel self X' G
   \<and> norm_stiefel self X G = sqrt (inner self X G G)
   \<and> norm_stiefel self X (Mat A) = frobenius_norm A
   \<and> norm_stiefel self X (Stack As) = sqrt (\<Sum>A\<leftarrow>As. (frobenius_norm A)\<^sup>2)
   \<and> (is_stack k r c As \<and> is_stack k r c Bs \<longrightarrow>
        inner self X (Stack As) (Stack Bs) = (\<Sum>(A, B)\<leftarrow>zip As Bs. frobenius_inner A B))"
  using norm_sqrt_inner [of self X G] norm_mat [of self X A] norm_stack [of self X As]
    inner_stack [of k r c As Bs self X]
  by (simp add: norm_stiefel_def)

theorem norm_frobenius_witness:
  "is_stack 2 2 1 [[[3], [0]], [[0], [4]]] \<and> is_stack 2 2 1 [[[1], [2]], [[3], [4]]]
   \<and> inner \<lparr>self_n = 2, self_p = 1, self_k = 2, self_dim = 2, self_name = None\<rparr>
         (Stack [[[1], [0]], [[0], [1]]])
         (Stack [[[3], [0]], [[0], [4]]]) (Stack [[[1], [2]], [[3], [4]]]) = 19
   \<and> norm_stiefel \<lparr>self_n = 2, self_p = 1, self_k = 2, self_dim = 2, self_name = None\<rparr>
         (Stack [[[1], [0]], [[0], [1]]]) (Stack [[[3], [0]], [[0], [4]]]) = 5"
  using norm_frobenius [of "\<lparr>self_n = 2, self_p = 1, self_k = 2, self_dim = 2, self_name = None\<rparr>"
      "Stack [[[1], [0]], [[0], [1]]]" "Stack [[[3], [0]], [[0], [4]]]"
      "Stack [[[1], [0]], [[0], [1]]]" "[]" "[[[3], [0]], [[0], [4]]]"
      2 2 1 "[[[1], [2]], [[3], [4]]]"]
  by (simp add: is_stack_def is_mat_def frobenius_inner_def frobenius_norm_def)

section \<open>Projection\<close>

lemma proj_mat_formula:
  assumes "0 < r" and "0 < c" and "is_mat r c X" and "is_mat r c U"
  shows "mat_sub U (mat_div (mat_dot X (mat_add (mat_dot (mat_T X) U) (mat_dot (mat_T U) X))) 2)
         = proj_formula X U"
proof -
  obtain x where X: "X = mk r c x" using assms(3) by (rule is_mat_obtain)
  obtain u where U: "U = mk r c u" using assms(4) by (rule is_mat_obtain)
  show ?thesis
    using assms(1,2)
    apply (simp add: X U proj_formula_def sym_def mk_ops)
    apply (rule mk_cong2 [OF refl refl])
    apply (simp add: sum_divide_distrib mult.commute)
    done
qed


lemma mk_eqD:
  "mk r c f = mk r c g \<Longrightarrow> i < r \<Longrightarrow> j < c \<Longrightarrow> f i j = g i j"
  by (metis nth_mk)

lemma ortho_contract:
  fixes x :: "nat \<Rightarrow> nat \<Rightarrow> real"
  assumes ortho: "\<And>l m. l < c \<Longrightarrow> m < c \<Longrightarrow> (\<Sum>a<r. x a l * x a m) = (if l = m then 1 else 0)"
    and l: "l < c"
  shows "(\<Sum>a<r. x a l * (\<Sum>m<c. x a m * s m)) = s l"
proof -
  have "(\<Sum>a<r. x a l * (\<Sum>m<c. x a m * s m)) = (\<Sum>a<r. \<Sum>m<c. (x a l * x a m) * s m)"
    by (simp add: sum_distrib_left mult.assoc)
  also have "\<dots> = (\<Sum>m<c. \<Sum>a<r. (x a l * x a m) * s m)"
    by (rule sum.swap)
  also have "\<dots> = (\<Sum>m<c. (\<Sum>a<r. x a l * x a m) * s m)"
    by (simp add: sum_distrib_right)
  also have "\<dots> = (\<Sum>m<c. (if l = m then 1 else 0) * s m)"
    using ortho l by (intro sum.cong refl) simp
  also have "\<dots> = s l"
    using l by (simp add: if_distrib [of "\<lambda>t. t * _"] sum.delta cong: if_cong)
  finally show ?thesis .
qed

lemma proj_mat_idem:
  assumes r: "0 < r" and c: "0 < c" and X: "is_mat r c X" and U: "is_mat r c U"
    and ortho: "mat_dot (mat_T X) X = eye c"
  shows "proj_formula X (proj_formula X U) = proj_formula X U"
proof -
  obtain x where Xm: "X = mk r c x" using X by (rule is_mat_obtain)
  obtain u where Um: "U = mk r c u" using U by (rule is_mat_obtain)
  define s where "s = (\<lambda>l j. (\<Sum>a<r. x a l * u a j) + (\<Sum>a<r. x a j * u a l))"
  define pp where "pp = (\<lambda>i j. u i j - (\<Sum>l<c. x i l * (s l j / 2)))"
  define s' where "s' = (\<lambda>l j. (\<Sum>a<r. x a l * pp a j) + (\<Sum>a<r. x a j * pp a l))"
  have P: "proj_formula X U = mk r c pp"
    using r c by (simp add: Xm Um proj_formula_def sym_def mk_ops pp_def s_def)
  have P': "proj_formula X (mk r c pp) = mk r c (\<lambda>i j. pp i j - (\<Sum>l<c. x i l * (s' l j / 2)))"
    using r c by (simp add: Xm proj_formula_def sym_def mk_ops s'_def)
  have "mk c c (\<lambda>l m. \<Sum>a<r. x a l * x a m) = mk c c (\<lambda>i j. if i = j then 1 else 0)"
    using ortho r c by (simp add: Xm mk_ops eye_def)
  then have o: "\<And>l m. l < c \<Longrightarrow> m < c \<Longrightarrow> (\<Sum>a<r. x a l * x a m) = (if l = m then 1 else 0)"
    by (rule mk_eqD)
  have half: "\<And>l j. l < c \<Longrightarrow> j < c \<Longrightarrow>
      (\<Sum>a<r. x a l * pp a j) = (\<Sum>a<r. x a l * u a j) - s l j / 2"
  proof -
    fix l j assume l: "l < c" and j: "j < c"
    have "(\<Sum>a<r. x a l * pp a j)
            = (\<Sum>a<r. x a l * u a j) - (\<Sum>a<r. x a l * (\<Sum>m<c. x a m * (s m j / 2)))"
      by (simp add: pp_def right_diff_distrib sum_subtractf)
    also have "(\<Sum>a<r. x a l * (\<Sum>m<c. x a m * (s m j / 2))) = s l j / 2"
      using o l by (rule ortho_contract)
    finally show "(\<Sum>a<r. x a l * pp a j) = (\<Sum>a<r. x a l * u a j) - s l j / 2" .
  qed
  have zero: "\<And>l j. l < c \<Longrightarrow> j < c \<Longrightarrow> s' l j = 0"
  proof -
    fix l j assume l: "l < c" and j: "j < c"
    have "s' l j = ((\<Sum>a<r. x a l * u a j) - s l j / 2) + ((\<Sum>a<r. x a j * u a l) - s j l / 2)"
      using half [OF l j] half [OF j l] by (simp add: s'_def)
    also have "\<dots> = 0"
      by (simp add: s_def add_divide_distrib)
    finally show "s' l j = 0" .
  qed
  have "mk r c (\<lambda>i j. pp i j - (\<Sum>l<c. x i l * (s' l j / 2))) = mk r c pp"
    by (rule mk_cong2 [OF refl refl]) (simp add: zero)
  then show ?thesis
    using P P' by simp
qed


lemma is_mat_proj_formula:
  assumes "0 < r" and "0 < c" and "is_mat r c X" and "is_mat r c U"
  shows "is_mat r c (proj_formula X U)"
proof -
  obtain x where X: "X = mk r c x" using assms(3) by (rule is_mat_obtain)
  obtain u where U: "U = mk r c u" using assms(4) by (rule is_mat_obtain)
  show ?thesis
    using assms(1,2) by (simp add: X U proj_formula_def sym_def mk_ops)
qed

lemma proj_single:
  assumes "self_k self = 1" and "0 < r" and "0 < c" and "is_mat r c X" and "is_mat r c U"
  shows "proj self (Mat X) (Mat U) = Mat (proj_formula X U)"
  using assms by (simp add: proj_def proj_mat_formula [of r c])

lemma is_stack_nth: "is_stack m r c As \<Longrightarrow> i < m \<Longrightarrow> is_mat r c (As ! i)"
  by (simp add: is_stack_def list_all_length)

lemma is_stack_length: "is_stack m r c As \<Longrightarrow> length As = m"
  by (simp add: is_stack_def)

lemma proj_stack:
  assumes "self_k self \<noteq> 1" and "0 < r" and "0 < c"
    and "is_stack m r c Xs" and "is_stack m r c Us"
  shows "proj self (Stack Xs) (Stack Us) = Stack (map2 proj_formula Xs Us)"
proof -
  have "map2 mat_sub Us (map (\<lambda>A. mat_div A 2)
          (map2 mat_dot Xs (map2 mat_add (map2 mat_dot (map mat_T Xs) Us)
                                          (map2 mat_dot (map mat_T Us) Xs))))
        = map2 proj_formula Xs Us"
  proof (rule nth_equalityI)
    show "length (map2 mat_sub Us (map (\<lambda>A. mat_div A 2)
            (map2 mat_dot Xs (map2 mat_add (map2 mat_dot (map mat_T Xs) Us)
                                            (map2 mat_dot (map mat_T Us) Xs)))))
          = length (map2 proj_formula Xs Us)"
      using assms(4,5) by (simp add: is_stack_def)
  next
    fix i
    assume "i < length (map2 mat_sub Us (map (\<lambda>A. mat_div A 2)
            (map2 mat_dot Xs (map2 mat_add (map2 mat_dot (map mat_T Xs) Us)
                                            (map2 mat_dot (map mat_T Us) Xs)))))"
    then have i: "i < m" "i < length Xs" "i < length Us"
      using assms(4,5) by (simp_all add: is_stack_def)
    have "is_mat r c (Xs ! i)" "is_mat r c (Us ! i)"
      using assms(4,5) i(1) by (simp_all add: is_stack_nth)
    then show "map2 mat_sub Us (map (\<lambda>A. mat_div A 2)
            (map2 mat_dot Xs (map2 mat_add (map2 mat_dot (map mat_T Xs) Us)
                                            (map2 mat_dot (map mat_T Us) Xs)))) ! i
          = map2 proj_formula Xs Us ! i"
      using i assms(2,3) by (simp add: proj_mat_formula [of r c])
  qed
  then show ?thesis
    using assms(1) by (simp add: proj_def)
qed

lemma is_stack_proj_formula:
  assumes "0 < r" and "0 < c" and "is_stack m r c Xs" and "is_stack m r c Us"
  shows "is_stack m r c (map2 proj_formula Xs Us)"
  using assms
  by (auto simp: is_stack_def list_all_length intro!: is_mat_proj_formula)

lemma proj_single_idem:
  assumes "self_k self = 1" and "0 < r" and "0 < c" and "is_mat r c X" and "is_mat r c U"
    and "mat_dot (mat_T X) X = eye c"
  shows "proj self (Mat X) (proj self (Mat X) (Mat U)) = proj self (Mat X) (Mat U)"
proof -
  have "is_mat r c (proj_formula X U)"
    using assms by (intro is_mat_proj_formula)
  then show ?thesis
    using assms by (simp add: proj_single [of self r c] proj_mat_idem [of r c])
qed

lemma proj_stack_idem:
  assumes "self_k self \<noteq> 1" and "0 < r" and "0 < c"
    and "is_stack m r c Xs" and "is_stack m r c Us"
    and "\<forall>X\<in>set Xs. mat_dot (mat_T X) X = eye c"
  shows "proj self (Stack Xs) (proj self (Stack Xs) (Stack Us)) = proj self (Stack Xs) (Stack Us)"
proof -
  let ?Ps = "map2 proj_formula Xs Us"
  have Ps: "is_stack m r c ?Ps"
    using assms by (intro is_stack_proj_formula)
  have "map2 proj_formula Xs ?Ps = ?Ps"
  proof (rule nth_equalityI)
    show "length (map2 proj_formula Xs ?Ps) = length ?Ps" by simp
  next
    fix i assume "i < length (map2 proj_formula Xs ?Ps)"
    then have i: "i < length Xs" "i < length Us" by simp_all
    then have "i < m" using assms(4) by (simp add: is_stack_def)
    then have "is_mat r c (Xs ! i)" "is_mat r c (Us ! i)"
      using assms(4,5) by (simp_all add: is_stack_nth)
    moreover have "mat_dot (mat_T (Xs ! i)) (Xs ! i) = eye c"
      using assms(6) i by simp
    ultimately have "proj_formula (Xs ! i) (proj_formula (Xs ! i) (Us ! i))
                     = proj_formula (Xs ! i) (Us ! i)"
      using assms(2,3) by (intro proj_mat_idem [of r c])
    then show "map2 proj_formula Xs ?Ps ! i = ?Ps ! i"
      using i by simp
  qed
  then show ?thesis
    using assms Ps by (simp add: proj_stack [of self r c m])
qed

text \<open>
  Claim C3. On arrays of one shape with positive axes, \<^verbatim>\<open>proj(X, U)\<close> is
  U - X sym(transpose of X times U) with sym(M) = (M + transpose of M) / 2: for k = 1 as
  one matrix expression, for every other k slice by slice in the order of the input.
  \<^verbatim>\<open>egrad2rgrad\<close> is the same function as \<^verbatim>\<open>proj\<close>.
\<close>

theorem proj_closed_form:
  assumes "0 < r" and "0 < c"
  shows "(self_k self = 1 \<and> is_mat r c X \<and> is_mat r c U \<longrightarrow>
            proj self (Mat X) (Mat U) = Mat (proj_formula X U))
       \<and> (self_k self \<noteq> 1 \<and> is_stack m r c Xs \<and> is_stack m r c Us \<longrightarrow>
            proj self (Stack Xs) (Stack Us) = Stack (map2 proj_formula Xs Us))
       \<and> egrad2rgrad self Y V = proj self Y V"
  using assms proj_single [of self r c X U] proj_stack [of self r c m Xs Us]
  by (simp add: egrad2rgrad_def)

theorem proj_closed_form_witness:
  "(0::nat) < 2 \<and> (0::nat) < 1
   \<and> is_mat 2 1 [[1], [0]] \<and> is_mat 2 1 [[3], [4]]
   \<and> proj \<lparr>self_n = 2, self_p = 1, self_k = 1, self_dim = 1, self_name = None\<rparr>
         (Mat [[1], [0]]) (Mat [[3], [4]]) = Mat [[0], [4]]
   \<and> is_stack 2 2 1 [[[1], [0]], [[0], [1]]] \<and> is_stack 2 2 1 [[[3], [4]], [[5], [6]]]
   \<and> proj \<lparr>self_n = 2, self_p = 1, self_k = 2, self_dim = 2, self_name = None\<rparr>
         (Stack [[[1], [0]], [[0], [1]]]) (Stack [[[3], [4]], [[5], [6]]])
       = Stack [[[0], [4]], [[5], [0]]]
   \<and> egrad2rgrad \<lparr>self_n = 2, self_p = 1, self_k = 1, self_dim = 1, self_name = None\<rparr>
         (Mat [[1], [0]]) (Mat [[3], [4]]) = Mat [[0], [4]]"
  using proj_closed_form [of 2 1
      "\<lparr>self_n = 2, self_p = 1, self_k = 1, self_dim = 1, self_name = None\<rparr>"
      "[[1], [0]]" "[[3], [4]]" 0 "[]" "[]" "Mat [[1], [0]]" "Mat [[3], [4]]"]
    proj_closed_form [of 2 1
      "\<lparr>self_n = 2, self_p = 1, self_k = 2, self_dim = 2, self_name = None\<rparr>"
      "[]" "[]" 2 "[[[1], [0]], [[0], [1]]]" "[[[3], [4]], [[5], [6]]]"
      "Mat [[1], [0]]" "Mat [[3], [4]]"]
  by (simp add: is_mat_def is_stack_def eval_ops)

text \<open>
  Claim C8. At a point whose slices have orthonormal columns (the product of the transpose
  of each slice with the slice is the identity), projecting a projected array again
  changes nothing.
\<close>

theorem proj_idempotent:
  assumes "0 < r" and "0 < c"
  shows "(self_k self = 1 \<and> is_mat r c X \<and> is_mat r c U
            \<and> mat_dot (mat_T X) X = eye c \<longrightarrow>
            proj self (Mat X) (proj self (Mat X) (Mat U)) = proj self (Mat X) (Mat U))
       \<and> (self_k self \<noteq> 1 \<and> is_stack m r c Xs \<and> is_stack m r c Us
            \<and> (\<forall>X\<in>set Xs. mat_dot (mat_T X) X = eye c) \<longrightarrow>
            proj self (Stack Xs) (proj self (Stack Xs) (Stack Us))
              = proj self (Stack Xs) (Stack Us))"
  using assms proj_single_idem [of self r c X U] proj_stack_idem [of self r c m Xs Us]
  by blast

theorem proj_idempotent_witness:
  "(0::nat) < 2 \<and> (0::nat) < 1
   \<and> is_mat 2 1 [[1], [0]] \<and> is_mat 2 1 [[3], [4]]
   \<and> mat_dot (mat_T [[1], [0]]) [[1], [0]] = eye 1
   \<and> proj \<lparr>self_n = 2, self_p = 1, self_k = 1, self_dim = 1, self_name = None\<rparr>
         (Mat [[1], [0]])
         (proj \<lparr>self_n = 2, self_p = 1, self_k = 1, self_dim = 1, self_name = None\<rparr>
            (Mat [[1], [0]]) (Mat [[3], [4]]))
       = Mat [[0], [4]]
   \<and> is_stack 2 2 1 [[[1], [0]], [[0], [1]]] \<and> is_stack 2 2 1 [[[3], [4]], [[5], [6]]]
   \<and> mat_dot (mat_T [[0], [1]]) [[0], [1]] = eye 1
   \<and> proj \<lparr>self_n = 2, self_p = 1, self_k = 2, self_dim = 2, self_name = None\<rparr>
         (Stack [[[1], [0]], [[0], [1]]])
         (proj \<lparr>self_n = 2, self_p = 1, self_k = 2, self_dim = 2, self_name = None\<rparr>
            (Stack [[[1], [0]], [[0], [1]]]) (Stack [[[3], [4]], [[5], [6]]]))
       = Stack [[[0], [4]], [[5], [0]]]"
  using proj_idempotent [of 2 1
      "\<lparr>self_n = 2, self_p = 1, self_k = 1, self_dim = 1, self_name = None\<rparr>"
      "[[1], [0]]" "[[3], [4]]" 0 "[]" "[]"]
    proj_idempotent [of 2 1
      "\<lparr>self_n = 2, self_p = 1, self_k = 2, self_dim = 2, self_name = None\<rparr>"
      "[]" "[]" 2 "[[[1], [0]], [[0], [1]]]" "[[[3], [4]], [[5], [6]]]"]
  by (simp add: is_mat_def is_stack_def eval_ops)

section \<open>Conversion of the Hessian\<close>

lemma is_mat_rhess_arg:
  assumes "0 < r" and "0 < c" and "is_mat r c X" and "is_mat r c G" and "is_mat r c E"
    and "is_mat r c H"
  shows "is_mat r c (mat_sub E (mat_dot H (sym (mat_dot (mat_T X) G))))"
proof -
  obtain x where X: "X = mk r c x" using assms(3) by (rule is_mat_obtain)
  obtain g where G: "G = mk r c g" using assms(4) by (rule is_mat_obtain)
  obtain e where E: "E = mk r c e" using assms(5) by (rule is_mat_obtain)
  obtain h where H: "H = mk r c h" using assms(6) by (rule is_mat_obtain)
  show ?thesis
    using assms(1,2) by (simp add: X G E H sym_def mk_ops)
qed

lemma ehess2rhess_unfold:
  "ehess2rhess self X egrad ehess H
     = proj self X (np_sub ehess (multiprod H (multisym (multiprod (multitransp X) egrad))))"
  by (simp add: ehess2rhess_def Let_def)

lemma ehess2rhess_single:
  assumes "self_k self = 1" and "0 < r" and "0 < c"
    and "is_mat r c X" and "is_mat r c G" and "is_mat r c E" and "is_mat r c H"
  shows "ehess2rhess self (Mat X) (Mat G) (Mat E) (Mat H)
           = Mat (proj_formula X (mat_sub E (mat_dot H (sym (mat_dot (mat_T X) G)))))"
proof -
  have "is_mat r c (mat_sub E (mat_dot H (sym (mat_dot (mat_T X) G))))"
    using assms by (intro is_mat_rhess_arg)
  then show ?thesis
    using assms by (simp add: ehess2rhess_unfold multisym_def sym_def proj_single [of self r c])
qed

lemma ehess2rhess_stack:
  assumes "self_k self \<noteq> 1" and "0 < r" and "0 < c"
    and "is_stack m r c Xs" and "is_stack m r c Gs" and "is_stack m r c Es"
    and "is_stack m r c Hs"
  shows "ehess2rhess self (Stack Xs) (Stack Gs) (Stack Es) (Stack Hs)
           = Stack (map (\<lambda>i. proj_formula (Xs ! i)
                            (mat_sub (Es ! i)
                               (mat_dot (Hs ! i) (sym (mat_dot (mat_T (Xs ! i)) (Gs ! i))))))
                      [0..<m])"
proof -
  let ?W = "map2 mat_sub Es (map2 mat_dot Hs
              (map (\<lambda>A. mat_div A 2)
                 (map2 mat_add (map2 mat_dot (map mat_T Xs) Gs)
                    (map mat_T (map2 mat_dot (map mat_T Xs) Gs)))))"
  have len: "length Xs = m" "length Gs = m" "length Es = m" "length Hs = m"
    using assms by (simp_all add: is_stack_def)
  have nth: "\<And>i. i < m \<Longrightarrow>
      ?W ! i = mat_sub (Es ! i) (mat_dot (Hs ! i) (sym (mat_dot (mat_T (Xs ! i)) (Gs ! i))))"
    using len by (simp add: sym_def)
  have W: "is_stack m r c ?W"
    unfolding is_stack_def list_all_length
  proof (intro conjI allI impI)
    show "length ?W = m" using len by simp
  next
    fix i assume "i < length ?W"
    then have i: "i < m" using len by simp
    then show "is_mat r c (?W ! i)"
      using assms by (simp only: nth [OF i]) (intro is_mat_rhess_arg is_stack_nth)
  qed
  have "map2 proj_formula Xs ?W =
          map (\<lambda>i. proj_formula (Xs ! i)
                     (mat_sub (Es ! i)
                        (mat_dot (Hs ! i) (sym (mat_dot (mat_T (Xs ! i)) (Gs ! i))))))
            [0..<m]"
  proof (rule nth_equalityI)
    show "length (map2 proj_formula Xs ?W) = length (map (\<lambda>i. proj_formula (Xs ! i)
                     (mat_sub (Es ! i)
                        (mat_dot (Hs ! i) (sym (mat_dot (mat_T (Xs ! i)) (Gs ! i))))))
            [0..<m])"
      using len by simp
  next
    fix i assume "i < length (map2 proj_formula Xs ?W)"
    then have i: "i < m" using len by simp
    then have "map2 proj_formula Xs ?W ! i = proj_formula (Xs ! i) (?W ! i)"
      using len by simp
    then show "map2 proj_formula Xs ?W ! i = map (\<lambda>i. proj_formula (Xs ! i)
                     (mat_sub (Es ! i)
                        (mat_dot (Hs ! i) (sym (mat_dot (mat_T (Xs ! i)) (Gs ! i))))))
            [0..<m] ! i"
      using i by (simp only: nth [OF i]) simp
  qed
  moreover have "ehess2rhess self (Stack Xs) (Stack Gs) (Stack Es) (Stack Hs)
                   = proj self (Stack Xs) (Stack ?W)"
    by (simp add: ehess2rhess_unfold multisym_def)
  ultimately show ?thesis
    using assms(1-4) W by (simp add: proj_stack [of self r c m])
qed

text \<open>
  Claim C5. \<^verbatim>\<open>ehess2rhess(X, egrad, ehess, H)\<close> is \<^verbatim>\<open>proj(X, ehess - H S)\<close> with
  S = sym(transpose of X times egrad) and H on the left of S: as the operators of the
  class for all arguments, and as the formulas of the specification on arrays of one
  shape, for k = 1 on the matrices and for every other k slice by slice.
\<close>

theorem ehess2rhess_closed_form:
  assumes "0 < r" and "0 < c"
  shows "ehess2rhess self Y egrad ehess V
           = proj self Y (np_sub ehess (multiprod V (multisym (multiprod (multitransp Y) egrad))))
       \<and> (self_k self = 1 \<and> is_mat r c X \<and> is_mat r c G \<and> is_mat r c E \<and> is_mat r c H \<longrightarrow>
            ehess2rhess self (Mat X) (Mat G) (Mat E) (Mat H)
              = Mat (proj_formula X (mat_sub E (mat_dot H (sym (mat_dot (mat_T X) G))))))
       \<and> (self_k self \<noteq> 1 \<and> is_stack m r c Xs \<and> is_stack m r c Gs \<and> is_stack m r c Es
            \<and> is_stack m r c Hs \<longrightarrow>
            ehess2rhess self (Stack Xs) (Stack Gs) (Stack Es) (Stack Hs)
              = Stack (map (\<lambda>i. proj_formula (Xs ! i)
                              (mat_sub (Es ! i)
                                 (mat_dot (Hs ! i) (sym (mat_dot (mat_T (Xs ! i)) (Gs ! i))))))
                         [0..<m]))"
  using assms ehess2rhess_unfold [of self Y egrad ehess V]
    ehess2rhess_single [of self r c X G E H] ehess2rhess_stack [of self r c m Xs Gs Es Hs]
  by blast

theorem ehess2rhess_closed_form_witness:
  "(0::nat) < 2 \<and> (0::nat) < 1
   \<and> is_mat 2 1 [[1], [0]] \<and> is_mat 2 1 [[2], [3]] \<and> is_mat 2 1 [[1], [1]]
   \<and> is_mat 2 1 [[0], [1]]
   \<and> ehess2rhess \<lparr>self_n = 2, self_p = 1, self_k = 1, self_dim = 1, self_name = None\<rparr>
         (Mat [[1], [0]]) (Mat [[2], [3]]) (Mat [[1], [1]]) (Mat [[0], [1]])
       = Mat [[0], [- 1]]
   \<and> is_stack 2 2 1 [[[1], [0]], [[1], [0]]] \<and> is_stack 2 2 1 [[[2], [3]], [[2], [3]]]
   \<and> is_stack 2 2 1 [[[1], [1]], [[1], [1]]] \<and> is_stack 2 2 1 [[[0], [1]], [[0], [1]]]
   \<and> ehess2rhess \<lparr>self_n = 2, self_p = 1, self_k = 2, self_dim = 2, self_name = None\<rparr>
         (Stack [[[1], [0]], [[1], [0]]]) (Stack [[[2], [3]], [[2], [3]]])
         (Stack [[[1], [1]], [[1], [1]]]) (Stack [[[0], [1]], [[0], [1]]])
       = Stack [[[0], [- 1]], [[0], [- 1]]]"
proof -
  let ?M1 = "\<lparr>self_n = 2, self_p = 1, self_k = 1, self_dim = 1, self_name = None\<rparr>"
  let ?M2 = "\<lparr>self_n = 2, self_p = 1, self_k = 2, self_dim = 2, self_name = None\<rparr>"
  have shapes: "is_mat 2 1 [[1], [0]]" "is_mat 2 1 [[2], [3]]" "is_mat 2 1 [[1], [1]]"
    "is_mat 2 1 [[0], [1]]"
    "is_stack 2 2 1 [[[1], [0]], [[1], [0]]]" "is_stack 2 2 1 [[[2], [3]], [[2], [3]]]"
    "is_stack 2 2 1 [[[1], [1]], [[1], [1]]]" "is_stack 2 2 1 [[[0], [1]], [[0], [1]]]"
    by (simp_all add: is_mat_def is_stack_def)
  have v: "proj_formula [[1], [0]]
             (mat_sub [[1], [1]] (mat_dot [[0], [1]] (sym (mat_dot (mat_T [[1], [0]]) [[2], [3]]))))
           = [[0], [- 1]]"
    by (simp add: eval_ops)
  have "ehess2rhess ?M1 (Mat [[1], [0]]) (Mat [[2], [3]]) (Mat [[1], [1]]) (Mat [[0], [1]])
          = Mat (proj_formula [[1], [0]]
                   (mat_sub [[1], [1]]
                      (mat_dot [[0], [1]] (sym (mat_dot (mat_T [[1], [0]]) [[2], [3]])))))"
    using shapes
      ehess2rhess_closed_form [of 2 1 ?M1 "Mat [[1], [0]]" "Mat [[2], [3]]" "Mat [[1], [1]]"
        "Mat [[0], [1]]" "[[1], [0]]" "[[2], [3]]" "[[1], [1]]" "[[0], [1]]" 0 "[]" "[]" "[]" "[]",
        THEN conjunct2, THEN conjunct1]
    by simp
  then have e1: "ehess2rhess ?M1 (Mat [[1], [0]]) (Mat [[2], [3]]) (Mat [[1], [1]])
                   (Mat [[0], [1]]) = Mat [[0], [- 1]]"
    by (simp only: v)
  have "ehess2rhess ?M2 (Stack [[[1], [0]], [[1], [0]]]) (Stack [[[2], [3]], [[2], [3]]])
          (Stack [[[1], [1]], [[1], [1]]]) (Stack [[[0], [1]], [[0], [1]]])
        = Stack (map (\<lambda>i. proj_formula ([[[1], [0]], [[1], [0]]] ! i)
                        (mat_sub ([[[1], [1]], [[1], [1]]] ! i)
                           (mat_dot ([[[0], [1]], [[0], [1]]] ! i)
                              (sym (mat_dot (mat_T ([[[1], [0]], [[1], [0]]] ! i))
                                      ([[[2], [3]], [[2], [3]]] ! i))))))
                   [0..<2])"
    using shapes
      ehess2rhess_closed_form [of 2 1 ?M2 "Mat [[1], [0]]" "Mat [[2], [3]]" "Mat [[1], [1]]"
        "Mat [[0], [1]]" "[]" "[]" "[]" "[]" 2 "[[[1], [0]], [[1], [0]]]"
        "[[[2], [3]], [[2], [3]]]" "[[[1], [1]], [[1], [1]]]" "[[[0], [1]], [[0], [1]]]",
        THEN conjunct2, THEN conjunct2]
    by simp
  also have "\<dots> = Stack [[[0], [- 1]], [[0], [- 1]]]"
    by (simp add: upt_conv_Cons v)
  finally have e2: "ehess2rhess ?M2 (Stack [[[1], [0]], [[1], [0]]])
          (Stack [[[2], [3]], [[2], [3]]]) (Stack [[[1], [1]], [[1], [1]]])
          (Stack [[[0], [1]], [[0], [1]]]) = Stack [[[0], [- 1]], [[0], [- 1]]]" .
  show ?thesis
    using shapes e1 e2 by simp
qed

section \<open>Random tangent vectors\<close>












end
